theory Spec2Isabelle
  imports Main "HOL-Library.Word"
begin

section \<open>Strings of the host language\<close>

text \<open>
  A TypeScript string is a sequence of UTF-16 code units. Text that the extension
  inspects character by character (document lines, selections, answers typed into an
  input box, labels) is a list of 16-bit words; \<open>js\<close> writes an ASCII literal of the
  source as such a list.
\<close>

type_synonym jschar = "16 word"
type_synonym jsstring = "jschar list"

definition js :: "string \<Rightarrow> jsstring" where
  "js s = map (\<lambda>c. of_nat (of_char c)) s"

definition CR :: jschar where
  "CR = 0x0D"

definition LF :: jschar where
  "LF = 0x0A"

text \<open>The character class \<open>\s\<close> of an ECMAScript regular expression.\<close>

definition isWhitespace :: "jschar \<Rightarrow> bool" where
  "isWhitespace c =
     (c = 0x09 \<or> c = 0x0A \<or> c = 0x0B \<or> c = 0x0C \<or> c = 0x0D \<or> c = 0x20 \<or>
      c = 0xA0 \<or> c = 0x1680 \<or> (0x2000 \<le> c \<and> c \<le> 0x200A) \<or>
      c = 0x2028 \<or> c = 0x2029 \<or> c = 0x202F \<or> c = 0x205F \<or> c = 0x3000 \<or>
      c = 0xFEFF)"


section \<open>Documents and the formatter for language q\<close>

text \<open>
  The part of the editor interface that \<open>provideDocumentFormattingEdits\<close> uses: a
  document is the list of its lines (without line terminators), \<open>lineAt\<close> fails outside
  \<open>0 \<le> i < lineCount\<close> (the editor throws there, here \<open>None\<close>), a line knows its text,
  its range and whether it consists of white space only, and \<open>TextEdit.insert\<close> builds
  the edit that inserts a text at a position.
\<close>

type_synonym Position = "nat \<times> nat"

record Range =
  range_start :: Position
  range_end :: Position

record TextLine =
  line_text :: jsstring
  line_range :: Range
  isEmptyOrWhitespace :: bool

record TextEdit =
  edit_range :: Range
  newText :: jsstring

type_synonym TextDocument = "jsstring list"

definition lineCount :: "TextDocument \<Rightarrow> nat" where
  "lineCount document = length document"

definition lineAt :: "TextDocument \<Rightarrow> nat \<Rightarrow> TextLine option" where
  "lineAt document i =
     (if i < length document
      then Some \<lparr>line_text = document ! i,
                 line_range = \<lparr>range_start = (i, 0), range_end = (i, length (document ! i))\<rparr>,
                 isEmptyOrWhitespace = list_all isWhitespace (document ! i)\<rparr>
      else None)"

definition TextEdit_insert :: "Position \<Rightarrow> jsstring \<Rightarrow> TextEdit" where
  "TextEdit_insert position s =
     \<lparr>edit_range = \<lparr>range_start = position, range_end = position\<rparr>, newText = s\<rparr>"

text \<open>
  \<open>line.text.match('^[)\\]}]')\<close>: the string is compiled to the regular expression
  \<open>^[)\]}]\<close>, which matches exactly when the first code unit is one of
  \<open>)\<close>, \<open>]\<close>, \<open>}\<close>.
\<close>

fun match_closing :: "jsstring \<Rightarrow> bool" where
  "match_closing [] = False"
| "match_closing (c # cs) = (c = 0x29 \<or> c = 0x5D \<or> c = 0x7D)"

text \<open>
  The loop \<open>for (let i = 0; i < document.lineCount; i++)\<close> with the array
  \<open>textEdit\<close> it pushes to. The result is \<open>None\<close> when \<open>lineAt\<close> throws.
\<close>

function formatting_loop :: "TextDocument \<Rightarrow> nat \<Rightarrow> TextEdit list \<Rightarrow> TextEdit list option" where
  "formatting_loop document i textEdit =
     (if i < lineCount document then
        (case lineAt document i of
           None \<Rightarrow> None
         | Some line \<Rightarrow>
             if isEmptyOrWhitespace line then formatting_loop document (Suc i) textEdit
             else if match_closing (line_text line) then
               formatting_loop document (Suc i)
                 (textEdit @ [TextEdit_insert (range_start (line_range line)) (js '' '')])
             else formatting_loop document (Suc i) textEdit)
      else Some textEdit)"
  by pat_completeness auto
termination
  by (relation "measure (\<lambda>(document, i, textEdit). lineCount document - i)") auto

declare formatting_loop.simps [simp del]

definition provideDocumentFormattingEdits :: "TextDocument \<Rightarrow> TextEdit list option" where
  "provideDocumentFormattingEdits document = formatting_loop document 0 []"

text \<open>
  The lines the formatter is said to edit, in the words of the claim: non-empty, not
  white space only, and beginning with \<open>)\<close>, \<open>]\<close> or \<open>}\<close>.
\<close>

definition closing_line :: "jsstring \<Rightarrow> bool" where
  "closing_line t =
     (t \<noteq> [] \<and> \<not> list_all isWhitespace t \<and> (hd t = 0x29 \<or> hd t = 0x5D \<or> hd t = 0x7D))"


section \<open>What the command handlers see and what they call\<close>

text \<open>
  \<open>client.ts\<close> holds no state of its own: every handler reads the editor and the
  connection manager and calls into the other modules. A handler is modelled as the
  list of calls it makes, in program order, given what it reads (\<open>env\<close>) and what the
  user answers to the prompt it awaits.

  A value of type \<open>any\<close> (a configuration value, the argument of a command) is
  \<open>Undefined\<close>, a string, or some other value the handlers never look into.
\<close>

datatype 'a jsval = Undefined | Str jsstring | Other 'a

record QConn =
  uniqLabel :: jsstring
  label :: jsstring
  tags :: jsstring

text \<open>What the handlers read of \<open>QConnManager.current\<close>.\<close>

record QConnManager =
  activeConn :: "QConn option"
  qCfg :: "QConn list"

record HistoryItem =
  history_uniqLabel :: jsstring
  history_query :: jsstring

text \<open>
  The tree item handed to \<open>q-explorer.preview\<close>; \<open>getBody\<close> is the result of the
  method of that name of a function item.
\<close>

record TreeItem =
  contextValue :: "jsstring option"
  item_label :: "jsstring option"
  getBody :: jsstring

text \<open>
  What the handlers read of \<open>window.activeTextEditor\<close>: \<open>selection_text\<close> is
  \<open>document.getText(new Range(selection.start, selection.end))\<close>, \<open>active_line_text\<close> is
  \<open>document.lineAt(selection.active.line).text\<close>.
\<close>

record TextEditor =
  selection_text :: jsstring
  active_line_text :: jsstring
  fileName :: jsstring

text \<open>
  \<open>configuration\<close> maps a dotted key to the value \<open>get\<close> returns for it (\<open>Undefined\<close> when
  there is none); \<open>previewQueryLimit\<close> is the text a template literal interpolates for
  the value of \<open>q-client.expl.prevQueryLimit\<close> read at activation.
\<close>

record 'a env =
  current :: "QConnManager option"
  queryConsole_current :: bool
  activeTextEditor :: "TextEditor option"
  configuration :: "string \<Rightarrow> 'a jsval"
  previewQueryLimit :: jsstring
  has_registerWebviewPanelSerializer :: bool

record ConfigurationChangeEvent =
  affectsConfiguration :: "string \<Rightarrow> bool"

datatype 'a params =
    SourceFiles (globsPattern: "'a jsval") (ignorePattern: "'a jsval")
  | Code "'a jsval"

datatype 'a effect =
    SetLanguageConfiguration
  | RegisterDocumentFormattingEditProvider
  | StatusBar_create
  | UpdateConnStatus_undefined
  | RegisterTreeDataProvider string
  | TreeRefresh string
  | QueryConsole_createOrShow
  | SetExtensionPath string
  | RegisterCommand string
  | RegisterWebviewPanelSerializer
  | OnDidChangeConfiguration
  | Client_start
  | Client_onReady
  | AddServer_createOrShow
  | AddServer_update QConn
  | ShowInputBox jsstring
  | ShowQuickPick "jsstring list" jsstring
  | ShowInformationMessage jsstring
  | OpenExternal jsstring
  | Assign_tags QConn jsstring
  | RemoveCfg jsstring
  | Connect jsstring "jsstring option"
  | AddCfg QConn
  | Sync jsstring
  | ToggleLimitQuery
  | AbortQuery
  | ExportCfg
  | ImportCfg
  | SetQueryMode "'a jsval"
  | UpdateQueryModeStatus
  | QueryConsole_append jsstring nat jsstring
  | Console_log "'a jsval"
  | SendToCurrentTerm jsstring
  | RunQFile jsstring
  | QueryView_revive
  | SendNotification string "'a params"
  | Client_notifies_fileChange jsstring

text \<open>
  \<open>QConnManager.current?.f(...)\<close>: the call is made when there is a manager, and
  nothing happens otherwise.
\<close>

definition on_current :: "'a env \<Rightarrow> 'a effect \<Rightarrow> 'a effect list" where
  "on_current e call = (case current e of None \<Rightarrow> [] | Some m \<Rightarrow> [call])"

text \<open>\<open>if (s)\<close> on a string that may be undefined.\<close>

fun truthy :: "jsstring option \<Rightarrow> bool" where
  "truthy None = False"
| "truthy (Some s) = (s \<noteq> [])"

text \<open>\<open>s.replace(',', '-')\<close> with a string pattern replaces the first occurrence only.\<close>

fun replace_comma :: "jsstring \<Rightarrow> jsstring" where
  "replace_comma [] = []"
| "replace_comma (c # cs) = (if c = 0x2C then 0x2D # cs else c # replace_comma cs)"

text \<open>
  \<open>s.replace(/(\r\n|\n|\r)/gm, '')\<close>: scanning from the left, at each position the
  alternatives are tried in order (\<open>\r\n\<close>, then \<open>\n\<close>, then \<open>\r\<close>) and a match is
  replaced by the empty string; a code unit where none matches is kept.
\<close>

fun replace_linebreaks :: "jsstring \<Rightarrow> jsstring" where
  "replace_linebreaks [] = []"
| "replace_linebreaks [c] = (if c = LF \<or> c = CR then [] else [c])"
| "replace_linebreaks (c # d # cs) =
     (if c = CR \<and> d = LF then replace_linebreaks cs
      else if c = LF \<or> c = CR then replace_linebreaks (d # cs)
      else c # replace_linebreaks (d # cs))"

text \<open>How a template literal interpolates a string that may be undefined.\<close>

fun interpolate :: "jsstring option \<Rightarrow> jsstring" where
  "interpolate None = js ''undefined''"
| "interpolate (Some s) = s"


section \<open>The command handlers\<close>

definition q_client_refreshEntry :: "'a effect list" where
  "q_client_refreshEntry = [TreeRefresh ''q-servers'']"

definition q_client_addEntry :: "'a effect list" where
  "q_client_addEntry = [AddServer_createOrShow]"

definition q_client_editEntry :: "QConn \<Rightarrow> 'a effect list" where
  "q_client_editEntry qConn = [AddServer_createOrShow, AddServer_update qConn]"

text \<open>
  \<open>q-client.deleteEntry\<close>: \<open>value\<close> is what the input box resolves to, \<open>None\<close> when the
  user cancels it.
\<close>

definition q_client_deleteEntry :: "'a env \<Rightarrow> QConn \<Rightarrow> jsstring option \<Rightarrow> 'a effect list" where
  "q_client_deleteEntry e qConn value' =
     ShowInputBox (js ''Confirm to Remove Server '' @ [0x27] @ replace_comma (uniqLabel qConn)
                     @ [0x27] @ js '' (Y/n)'')
     # (if value' = Some (js ''Y'') then on_current e (RemoveCfg (uniqLabel qConn)) else [])"

definition reactions_items :: "jsstring list" where
  "reactions_items =
     [js ''1 - Raising an Issue'', js ''2 - Writing a Review'', js ''3 - Creating a Pull Request'',
      js ''4 - Buying Me a Beer'', js ''5 - Q & A'']"

text \<open>\<open>switch (option?.[0])\<close>: the first code unit of the answer, if there is one.\<close>

definition q_client_reactions :: "jsstring option \<Rightarrow> 'a effect list" where
  "q_client_reactions option' =
     ShowQuickPick reactions_items (js ''Contribute to vscode-q by'')
     # (case option' of
          None \<Rightarrow> []
        | Some [] \<Rightarrow> []
        | Some (c # cs) \<Rightarrow>
            if c = 0x31 then [OpenExternal (js ''https://github.com/jshinonome/vscode-q/issues'')]
            else if c = 0x32 then
              [OpenExternal (js ''https://marketplace.visualstudio.com/items?itemName=jshinonome.vscode-q&ssr=false#review-details'')]
            else if c = 0x33 then
              [OpenExternal (js ''https://github.com/jshinonome/vscode-q/blob/master/CONTRIBUTING.md'')]
            else if c = 0x34 then [OpenExternal (js ''https://www.buymeacoffee.com/jshinonome'')]
            else if c = 0x35 then [OpenExternal (js ''https://github.com/jshinonome/vscode-q/discussions'')]
            else [])"

definition q_client_connect :: "'a env \<Rightarrow> jsstring \<Rightarrow> 'a effect list" where
  "q_client_connect e uniqLabel' = on_current e (Connect uniqLabel' None)"

text \<open>
  \<open>q-client.connectEntry\<close>: \<open>commands.executeCommand('q-client.connect', option)\<close> runs
  the handler registered above under that name.
\<close>

definition q_client_connectEntry :: "'a env \<Rightarrow> jsstring option \<Rightarrow> 'a effect list" where
  "q_client_connectEntry e option' =
     ShowQuickPick (case current e of None \<Rightarrow> [] | Some m \<Rightarrow> map uniqLabel (qCfg m))
       (js ''Contribute to vscode-q by'')
     # (case option' of
          None \<Rightarrow> []
        | Some s \<Rightarrow> if s \<noteq> [] then q_client_connect e s else [])"

definition q_client_tagEntry :: "'a env \<Rightarrow> QConn \<Rightarrow> jsstring option \<Rightarrow> 'a effect list" where
  "q_client_tagEntry e qConn answer =
     (let t = (case answer of None \<Rightarrow> [] | Some s \<Rightarrow> s) in
      [ShowInputBox (js ''Tags for '' @ [0x27] @ label qConn @ [0x27] @ js '' separate by ''
                       @ [0x27] @ js '','' @ [0x27] @ js '' (e.g. '' @ [0x27] @ js ''dev,quant,tca''
                       @ [0x27] @ js '')''),
       Assign_tags qConn t]
      @ on_current e (AddCfg (qConn\<lparr>tags := t\<rparr>)))"

definition queryModes :: "jsstring list" where
  "queryModes = [js ''Console'', js ''Grid'', js ''Virtualization'']"

text \<open>\<open>q-client.switchMode\<close>: \<open>mode\<close> is what the quick pick resolves to.\<close>

definition q_client_switchMode :: "jsstring option \<Rightarrow> 'a effect list" where
  "q_client_switchMode mode =
     ShowQuickPick queryModes (js ''Please choose a query mode from the list below'')
     # (case mode of
          None \<Rightarrow> []
        | Some m \<Rightarrow>
            if m \<noteq> [] then
              [ShowInformationMessage (js ''Switch to Query '' @ m @ js '' Mode''),
               SetQueryMode (Str m),
               UpdateQueryModeStatus]
            else [])"

definition q_client_toggleLimitQuery :: "'a env \<Rightarrow> 'a effect list" where
  "q_client_toggleLimitQuery e = on_current e ToggleLimitQuery"

definition q_client_abortQuery :: "'a env \<Rightarrow> 'a effect list" where
  "q_client_abortQuery e = on_current e AbortQuery"

definition q_client_exportServers :: "'a env \<Rightarrow> 'a effect list" where
  "q_client_exportServers e = on_current e ExportCfg"

definition q_client_importServers :: "'a env \<Rightarrow> 'a effect list" where
  "q_client_importServers e = on_current e ImportCfg"

definition q_explorer_refreshEntry :: "'a effect list" where
  "q_explorer_refreshEntry = [TreeRefresh ''q-explorer'']"

definition preview_query :: "'a env \<Rightarrow> TreeItem \<Rightarrow> jsstring" where
  "preview_query e item =
     js ''{[t;l]$[t in .Q.pt;select from t where date=last date, i<l;select from t where i<l]}[''
     @ [0x60] @ interpolate (item_label item) @ js '';'' @ previewQueryLimit e @ js '']''"

definition q_explorer_preview :: "'a env \<Rightarrow> TreeItem \<Rightarrow> 'a effect list" where
  "q_explorer_preview e item =
     (if contextValue item = Some (js ''qtable'') then on_current e (Sync (preview_query e item))
      else if contextValue item = Some (js ''qfunction'') then
        (if queryConsole_current e then [QueryConsole_append (getBody item) 0 (js ''cached'')] else [])
      else (case item_label item of
              None \<Rightarrow> []
            | Some l \<Rightarrow> if l \<noteq> [] then on_current e (Sync l) else []))"

definition q_explorer_click :: "'a jsval \<Rightarrow> 'a effect list" where
  "q_explorer_click label' = [Console_log label']"

text \<open>
  \<open>q-history.rerun\<close>: \<open>QConnManager.current?.activeConn?.uniqLabel\<close> is undefined unless
  there is a manager with an active connection, and then differs from every string.
\<close>

definition q_history_rerun :: "'a env \<Rightarrow> HistoryItem \<Rightarrow> 'a effect list" where
  "q_history_rerun e history =
     (if map_option uniqLabel (Option.bind (current e) activeConn) = Some (history_uniqLabel history)
      then on_current e (Sync (history_query history))
      else on_current e (Connect (history_uniqLabel history) (Some (history_query history))))"

definition q_client_queryCurrentLine :: "'a env \<Rightarrow> 'a effect list" where
  "q_client_queryCurrentLine e =
     (case activeTextEditor e of
        None \<Rightarrow> []
      | Some ed \<Rightarrow>
          (let query = active_line_text ed in
           if query \<noteq> [] then on_current e (Sync query) else []))"

definition q_client_querySelection :: "'a env \<Rightarrow> 'a effect list" where
  "q_client_querySelection e =
     (let query = map_option selection_text (activeTextEditor e) in
      case query of
        None \<Rightarrow> []
      | Some q \<Rightarrow> if q \<noteq> [] then on_current e (Sync q) else [])"

definition q_term_sendCurrentLine :: "'a env \<Rightarrow> 'a effect list" where
  "q_term_sendCurrentLine e =
     (case activeTextEditor e of
        None \<Rightarrow> []
      | Some ed \<Rightarrow>
          (let query = active_line_text ed in
           if query \<noteq> [] then [SendToCurrentTerm query] else []))"

definition q_term_sendSelection :: "'a env \<Rightarrow> 'a effect list" where
  "q_term_sendSelection e =
     (let query = map_option selection_text (activeTextEditor e) in
      case query of
        None \<Rightarrow> []
      | Some q \<Rightarrow> if q \<noteq> [] then [SendToCurrentTerm (replace_linebreaks q)] else [])"

definition q_client_terminal_run :: "'a env \<Rightarrow> 'a effect list" where
  "q_client_terminal_run e =
     (let filepath = map_option fileName (activeTextEditor e) in
      case filepath of
        None \<Rightarrow> []
      | Some f \<Rightarrow> if f \<noteq> [] then [RunQFile f] else [])"

definition deserializeWebviewPanel :: "'a effect list" where
  "deserializeWebviewPanel = [QueryView_revive]"

text \<open>
  The notification both the configuration handler and the ready handler send:
  \<open>workspace.getConfiguration('q-server.sourceFiles')\<close>, then the two \<open>get\<close>s.
\<close>

definition analyze_source_code :: "'a env \<Rightarrow> 'a effect" where
  "analyze_source_code e =
     SendNotification ''$/analyze-source-code''
       (SourceFiles (configuration e ''q-server.sourceFiles.globsPattern'')
                    (configuration e ''q-server.sourceFiles.ignorePattern''))"

definition onDidChangeConfiguration :: "'a env \<Rightarrow> ConfigurationChangeEvent \<Rightarrow> 'a effect list" where
  "onDidChangeConfiguration e ev =
     (if affectsConfiguration ev ''q-client'' \<and> \<not> affectsConfiguration ev ''q-client.term'' then
        [ShowInformationMessage (js ''Reload/Restart vscode to Making the Configuration Take Effect.'')]
      else if affectsConfiguration ev ''q-server'' then [analyze_source_code e]
      else [])"

definition q_client_sendServerCache :: "'a jsval \<Rightarrow> 'a effect list" where
  "q_client_sendServerCache code = [SendNotification ''$/analyze-server-cache'' (Code code)]"

definition onReady :: "'a env \<Rightarrow> 'a effect list" where
  "onReady e = [analyze_source_code e]"

text \<open>
  The language client is created with \<open>synchronize.fileEvents\<close> set to a file system
  watcher for \<open>**/*.q\<close>, under the comment \<open>Notify the server about q file changes\<close>,
  and is started. The client itself is code of the library, not of \<open>client.ts\<close>; what
  is modelled of it is what that comment says: when the watcher reports a changed
  file, the client notifies the server about it, without any call of
  \<open>client.sendNotification\<close> in \<open>client.ts\<close>. \<open>file\<close> is the path the watcher reports.
  Whatever else the library sends on its own is not modelled.
\<close>

definition fileEvents_changed :: "jsstring \<Rightarrow> 'a effect list" where
  "fileEvents_changed file = [Client_notifies_fileChange file]"


section \<open>Activation and the dispatch of events\<close>

text \<open>
  The calls \<open>activate\<close> makes itself, in order (constructions of objects are not
  recorded). Everything else happens later, in a handler.
\<close>

definition activate :: "'a env \<Rightarrow> 'a effect list" where
  "activate e =
     [SetLanguageConfiguration,
      RegisterDocumentFormattingEditProvider,
      StatusBar_create,
      UpdateConnStatus_undefined,
      RegisterTreeDataProvider ''q-servers'',
      TreeRefresh ''q-servers'',
      RegisterTreeDataProvider ''q-explorer'',
      RegisterTreeDataProvider ''q-history'',
      TreeRefresh ''q-history'',
      QueryConsole_createOrShow,
      SetExtensionPath ''QueryView'',
      SetExtensionPath ''QueryGrid'',
      SetExtensionPath ''AddServer'',
      SetQueryMode (configuration e ''q-client.queryMode'')]
     @ map RegisterCommand
        [''q-client.refreshEntry'', ''q-client.addEntry'', ''q-client.editEntry'',
         ''q-client.deleteEntry'', ''q-client.reactions'', ''q-client.connectEntry'',
         ''q-client.connect'', ''q-client.tagEntry'', ''q-client.switchMode'',
         ''q-client.toggleLimitQuery'', ''q-client.abortQuery'', ''q-client.exportServers'',
         ''q-client.importServers'', ''q-explorer.refreshEntry'', ''q-explorer.preview'',
         ''q-explorer.click'', ''q-history.rerun'', ''q-client.queryCurrentLine'',
         ''q-client.querySelection'', ''q-term.sendCurrentLine'', ''q-term.sendSelection'',
         ''q-client.terminal.run'']
     @ (if has_registerWebviewPanelSerializer e then [RegisterWebviewPanelSerializer] else [])
     @ [OnDidChangeConfiguration,
        Client_start,
        RegisterCommand ''q-client.sendServerCache'',
        Client_onReady]"

text \<open>
  What can happen after activation: a registered command runs (with its argument and
  the answer to its prompt), a webview panel is restored, the configuration changes,
  the language client becomes ready, or a file the client watches changes.
\<close>

datatype 'a event =
    Cmd_refreshEntry
  | Cmd_addEntry
  | Cmd_editEntry QConn
  | Cmd_deleteEntry QConn "jsstring option"
  | Cmd_reactions "jsstring option"
  | Cmd_connectEntry "jsstring option"
  | Cmd_connect jsstring
  | Cmd_tagEntry QConn "jsstring option"
  | Cmd_switchMode "jsstring option"
  | Cmd_toggleLimitQuery
  | Cmd_abortQuery
  | Cmd_exportServers
  | Cmd_importServers
  | Cmd_explorer_refreshEntry
  | Cmd_explorer_preview TreeItem
  | Cmd_explorer_click "'a jsval"
  | Cmd_history_rerun HistoryItem
  | Cmd_queryCurrentLine
  | Cmd_querySelection
  | Cmd_sendCurrentLine
  | Cmd_sendSelection
  | Cmd_terminal_run
  | Cmd_sendServerCache "'a jsval"
  | DeserializeWebviewPanel
  | ConfigurationChanged ConfigurationChangeEvent
  | Ready
  | WatchedFileChanged jsstring

fun handle :: "'a env \<Rightarrow> 'a event \<Rightarrow> 'a effect list" where
  "handle e Cmd_refreshEntry = q_client_refreshEntry"
| "handle e Cmd_addEntry = q_client_addEntry"
| "handle e (Cmd_editEntry qConn) = q_client_editEntry qConn"
| "handle e (Cmd_deleteEntry qConn value') = q_client_deleteEntry e qConn value'"
| "handle e (Cmd_reactions option') = q_client_reactions option'"
| "handle e (Cmd_connectEntry option') = q_client_connectEntry e option'"
| "handle e (Cmd_connect uniqLabel') = q_client_connect e uniqLabel'"
| "handle e (Cmd_tagEntry qConn answer) = q_client_tagEntry e qConn answer"
| "handle e (Cmd_switchMode mode) = q_client_switchMode mode"
| "handle e Cmd_toggleLimitQuery = q_client_toggleLimitQuery e"
| "handle e Cmd_abortQuery = q_client_abortQuery e"
| "handle e Cmd_exportServers = q_client_exportServers e"
| "handle e Cmd_importServers = q_client_importServers e"
| "handle e Cmd_explorer_refreshEntry = q_explorer_refreshEntry"
| "handle e (Cmd_explorer_preview item) = q_explorer_preview e item"
| "handle e (Cmd_explorer_click label') = q_explorer_click label'"
| "handle e (Cmd_history_rerun history) = q_history_rerun e history"
| "handle e Cmd_queryCurrentLine = q_client_queryCurrentLine e"
| "handle e Cmd_querySelection = q_client_querySelection e"
| "handle e Cmd_sendCurrentLine = q_term_sendCurrentLine e"
| "handle e Cmd_sendSelection = q_term_sendSelection e"
| "handle e Cmd_terminal_run = q_client_terminal_run e"
| "handle e (Cmd_sendServerCache code) = q_client_sendServerCache code"
| "handle e DeserializeWebviewPanel = deserializeWebviewPanel"
| "handle e (ConfigurationChanged ev) = onDidChangeConfiguration e ev"
| "handle e Ready = onReady e"
| "handle e (WatchedFileChanged file) = fileEvents_changed file"

text \<open>
  The notifications \<open>client.ts\<close> sends itself, that is the calls of
  \<open>client.sendNotification\<close>, among the calls of a trace.
\<close>

fun is_notification :: "'a effect \<Rightarrow> bool" where
  "is_notification (SendNotification method p) = True"
| "is_notification other = False"

text \<open>
  Everything in a trace that is a notification to the server process: a call of
  \<open>client.sendNotification\<close>, or a notification the language client sends by itself.
\<close>

fun sent_to_server :: "'a effect \<Rightarrow> bool" where
  "sent_to_server (SendNotification method p) = True"
| "sent_to_server (Client_notifies_fileChange file) = True"
| "sent_to_server other = False"

text \<open>
  The two kinds of message the analyzer is said to receive: the scope of the source
  files with its two patterns, and raw code for the server cache.
\<close>

fun analyzer_message :: "'a effect \<Rightarrow> bool" where
  "analyzer_message (SendNotification method (SourceFiles g i)) = (method = ''$/analyze-source-code'')"
| "analyzer_message (SendNotification method (Code c)) = (method = ''$/analyze-server-cache'')"
| "analyzer_message other = False"


section \<open>The connection manager, as specified\<close>

text \<open>
  Modelled from the spec: the module \<open>modules/q-conn-manager\<close> (the class
  \<open>QConnManager\<close> with \<open>setQueryMode\<close> and \<open>toggleLimitQuery\<close>) is not among the sources;
  only its callers in \<open>client.ts\<close> are. The data model is the one of the
  specification: the configurations, the connections by label, the active label, the
  query mode and the flag that limits query results.
\<close>

record ConnectionConfig =
  cfg_label :: jsstring
  host :: jsstring
  port :: nat
  credentials :: "jsstring option"
  cfg_tags :: jsstring

datatype ConnectionStatus = Disconnected | Connecting | Connected | Querying | Failed jsstring

record Connection =
  config :: ConnectionConfig
  status :: ConnectionStatus

datatype QueryMode = Console | Grid | Virtualization

record ConnectionManager =
  configs :: "ConnectionConfig list"
  connections :: "jsstring \<rightharpoonup> Connection"
  activeLabel :: "jsstring option"
  queryMode :: QueryMode
  limitQueryEnabled :: bool

text \<open>An operation either throws (\<open>Inl\<close>) or returns the manager as it is afterwards.\<close>

datatype exception = Exception jsstring

text \<open>
  Modelled from the spec: the enumerated set of query modes, \<open>Console\<close>, \<open>Grid\<close> and
  \<open>Virtualization\<close>, against which \<open>setQueryMode\<close> of the missing module
  \<open>modules/q-conn-manager\<close> validates its argument.
\<close>

fun enumerated_mode :: "'a jsval \<Rightarrow> QueryMode option" where
  "enumerated_mode (Str s) =
     (if s = js ''Console'' then Some Console
      else if s = js ''Grid'' then Some Grid
      else if s = js ''Virtualization'' then Some Virtualization
      else None)"
| "enumerated_mode Undefined = None"
| "enumerated_mode (Other v) = None"

text \<open>
  Modelled from the spec: \<open>setQueryMode(mode)\<close> of the missing module
  \<open>modules/q-conn-manager\<close> validates \<open>mode\<close> against the enumerated set and fails
  silently (a no-op) on an unrecognized value; it is not a thrown error.
\<close>

definition setQueryMode :: "'a jsval \<Rightarrow> ConnectionManager \<Rightarrow> exception + ConnectionManager" where
  "setQueryMode mode m =
     (case enumerated_mode mode of
        None \<Rightarrow> Inr m
      | Some q \<Rightarrow> Inr (m\<lparr>queryMode := q\<rparr>))"

text \<open>
  The call at start-up: \<open>QConnManager.setQueryMode(queryMode as string)\<close> with the value
  of \<open>q-client.queryMode\<close> (the cast changes nothing at run time).
\<close>

definition startup_setQueryMode :: "'a env \<Rightarrow> ConnectionManager \<Rightarrow> exception + ConnectionManager" where
  "startup_setQueryMode e m = setQueryMode (configuration e ''q-client.queryMode'') m"

text \<open>
  Modelled from the spec: \<open>toggleLimitQuery()\<close> of the missing module
  \<open>modules/q-conn-manager\<close> flips \<open>limitQueryEnabled\<close>; pure, no I/O. The second
  component lists the calls into other modules it makes: none.
\<close>

definition toggleLimitQuery :: "ConnectionManager \<Rightarrow> ConnectionManager \<times> 'a effect list" where
  "toggleLimitQuery m = (m\<lparr>limitQueryEnabled := \<not> limitQueryEnabled m\<rparr>, [])"


section \<open>Environments for examples\<close>

text \<open>
  An environment with a given manager and editor and without configuration values (so
  every value read from the configuration is undefined), and a connection with a given
  label.
\<close>

definition example_env :: "QConnManager option \<Rightarrow> TextEditor option \<Rightarrow> unit env" where
  "example_env m ed =
     \<lparr>current = m, queryConsole_current = False, activeTextEditor = ed,
      configuration = (\<lambda>k. Undefined), previewQueryLimit = js ''undefined'',
      has_registerWebviewPanelSerializer = True\<rparr>"

definition example_conn :: "string \<Rightarrow> QConn" where
  "example_conn l = \<lparr>uniqLabel = js l, label = js l, tags = []\<rparr>"

text \<open>A manager as specified, with no configuration and no connection.\<close>

definition example_manager :: ConnectionManager where
  "example_manager =
     \<lparr>configs = [], connections = Map.empty, activeLabel = None, queryMode = Console,
      limitQueryEnabled = True\<rparr>"


section \<open>The formatter\<close>

lemma match_closing_not_whitespace:
  "match_closing t \<Longrightarrow> \<not> list_all isWhitespace t"
  by (cases t) (auto simp: isWhitespace_def)

lemma closing_line_iff:
  "closing_line t \<longleftrightarrow> \<not> list_all isWhitespace t \<and> match_closing t"
  by (cases t) (auto simp: closing_line_def)

lemma formatting_loop_eq:
  "formatting_loop document i acc =
     Some (acc @ map (\<lambda>k. TextEdit_insert (k, 0) (js '' ''))
                    (filter (\<lambda>k. closing_line (document ! k)) [i..<length document]))"
proof (induction document i acc rule: formatting_loop.induct)
  case (1 document i textEdit)
  show ?case
  proof (cases "i < length document")
    case False
    then show ?thesis
      by (subst formatting_loop.simps) (simp add: lineCount_def)
  next
    case True
    let ?line = "\<lparr>line_text = document ! i,
                   line_range = \<lparr>range_start = (i, 0), range_end = (i, length (document ! i))\<rparr>,
                   isEmptyOrWhitespace = list_all isWhitespace (document ! i)\<rparr>"
    have at: "lineAt document i = Some ?line"
      using True by (simp add: lineAt_def)
    have lt: "i < lineCount document"
      using True by (simp add: lineCount_def)
    have upt: "[i..<length document] = i # [Suc i..<length document]"
      using True by (rule upt_conv_Cons)
    show ?thesis
    proof (cases "list_all isWhitespace (document ! i)")
      case ws: True
      have "formatting_loop document i textEdit = formatting_loop document (Suc i) textEdit"
        using lt at ws by (subst formatting_loop.simps) simp
      also have "\<dots> = Some (textEdit @ map (\<lambda>k. TextEdit_insert (k, 0) (js '' ''))
                    (filter (\<lambda>k. closing_line (document ! k)) [Suc i..<length document]))"
        using "1.IH"(1)[OF lt at] ws by simp
      finally show ?thesis
        using ws by (simp add: upt closing_line_iff)
    next
      case nws: False
      show ?thesis
      proof (cases "match_closing (document ! i)")
        case m: True
        have "formatting_loop document i textEdit =
                formatting_loop document (Suc i) (textEdit @ [TextEdit_insert (i, 0) (js '' '')])"
          using lt at nws m by (subst formatting_loop.simps) simp
        also have "\<dots> = Some ((textEdit @ [TextEdit_insert (i, 0) (js '' '')]) @
                    map (\<lambda>k. TextEdit_insert (k, 0) (js '' ''))
                      (filter (\<lambda>k. closing_line (document ! k)) [Suc i..<length document]))"
          using "1.IH"(2)[OF lt at] nws m by simp
        finally show ?thesis
          using nws m by (simp add: upt closing_line_iff)
      next
        case nm: False
        have "formatting_loop document i textEdit = formatting_loop document (Suc i) textEdit"
          using lt at nws nm by (subst formatting_loop.simps) simp
        also have "\<dots> = Some (textEdit @ map (\<lambda>k. TextEdit_insert (k, 0) (js '' ''))
                      (filter (\<lambda>k. closing_line (document ! k)) [Suc i..<length document]))"
          using "1.IH"(3)[OF lt at] nws nm by simp
        finally show ?thesis
          using nws nm by (simp add: upt closing_line_iff)
      qed
    qed
  qed
qed

text \<open>
  C9. For every document the formatter returns, without failing, exactly one edit for
  each line that is non-empty, not white space only and begins with \<open>)\<close>, \<open>]\<close> or
  \<open>}\<close>: the insertion of one space at column 0 of that line, in line order, and no
  other edit. A document without such a line gets the empty list of edits.
\<close>

theorem provideDocumentFormattingEdits_closing_lines:
  "provideDocumentFormattingEdits document =
     Some (map (\<lambda>k. TextEdit_insert (k, 0) (js '' ''))
             (filter (\<lambda>k. closing_line (document ! k)) [0..<length document]))
   \<and> ((\<forall>k < length document. \<not> closing_line (document ! k)) \<longrightarrow>
        provideDocumentFormattingEdits document = Some [])"
proof -
  have eq: "provideDocumentFormattingEdits document =
     Some (map (\<lambda>k. TextEdit_insert (k, 0) (js '' ''))
             (filter (\<lambda>k. closing_line (document ! k)) [0..<length document]))"
    unfolding provideDocumentFormattingEdits_def formatting_loop_eq by simp
  have "filter (\<lambda>k. closing_line (document ! k)) [0..<length document] = []"
    if "\<forall>k < length document. \<not> closing_line (document ! k)"
    using that by (simp add: filter_empty_conv)
  with eq show ?thesis by simp
qed

theorem provideDocumentFormattingEdits_closing_lines_witness:
  "provideDocumentFormattingEdits [js ''f:{[x]'', js '' x+1'', js ''}'', [], js ''  ]'', js '')''] =
     Some [TextEdit_insert (2, 0) (js '' ''), TextEdit_insert (5, 0) (js '' '')]
   \<and> \<not> closing_line (js ''a:1'') \<and> \<not> closing_line (js ''  '') \<and> \<not> closing_line (js '' }'')
   \<and> provideDocumentFormattingEdits [js ''a:1'', js ''  '', js '' }''] = Some []"
proof -
  have a: "provideDocumentFormattingEdits [js ''f:{[x]'', js '' x+1'', js ''}'', [], js ''  ]'', js '')''] =
     Some [TextEdit_insert (2, 0) (js '' ''), TextEdit_insert (5, 0) (js '' '')]"
    using provideDocumentFormattingEdits_closing_lines
      [of "[js ''f:{[x]'', js '' x+1'', js ''}'', [], js ''  ]'', js '')'']", THEN conjunct1]
    by (simp add: closing_line_def js_def isWhitespace_def upt_rec TextEdit_insert_def)
  have c: "\<not> closing_line (js ''a:1'')" "\<not> closing_line (js ''  '')" "\<not> closing_line (js '' }'')"
    by (simp_all add: closing_line_def js_def isWhitespace_def)
  then have h: "\<forall>k < length [js ''a:1'', js ''  '', js '' }'']. \<not> closing_line ([js ''a:1'', js ''  '', js '' }''] ! k)"
    by (simp add: less_Suc_eq)
  have b: "provideDocumentFormattingEdits [js ''a:1'', js ''  '', js '' }''] = Some []"
    using provideDocumentFormattingEdits_closing_lines [of "[js ''a:1'', js ''  '', js '' }'']"] h
    by blast
  from a b c show ?thesis by blast
qed


section \<open>Replaying a history entry\<close>

text \<open>
  Without a manager the label of the active connection is undefined, so it differs from
  the label of every history entry; yet \<open>connect\<close> is not called: the handler does
  nothing.
\<close>

theorem q_history_rerun_no_manager:
  "map_option uniqLabel (Option.bind (current (example_env None None)) activeConn)
     \<noteq> Some (history_uniqLabel \<lparr>history_uniqLabel = js ''dev1'', history_query = js ''1+1''\<rparr>)
   \<and> q_history_rerun (example_env None None)
         \<lparr>history_uniqLabel = js ''dev1'', history_query = js ''1+1''\<rparr> = []
   \<and> q_history_rerun (example_env None None)
         \<lparr>history_uniqLabel = js ''dev1'', history_query = js ''1+1''\<rparr>
       \<noteq> [Connect (js ''dev1'') (Some (js ''1+1''))]"
  by (simp add: q_history_rerun_def on_current_def example_env_def)

text \<open>
  C1, amended. When there is a connection manager, \<open>q-history.rerun\<close> calls
  \<open>sync(history.query)\<close> if the active connection has the entry's \<open>uniqLabel\<close>, and
  \<open>connect(history.uniqLabel, history.query)\<close> otherwise (also when no connection is
  active); it makes no other call. When there is no manager it makes no call at all.
\<close>

theorem q_history_rerun_delegates:
  "(current e = Some m \<longrightarrow>
      q_history_rerun e history =
        (if map_option uniqLabel (activeConn m) = Some (history_uniqLabel history)
         then [Sync (history_query history)]
         else [Connect (history_uniqLabel history) (Some (history_query history))]))
   \<and> (current e = None \<longrightarrow> q_history_rerun e history = [])"
  by (auto simp: q_history_rerun_def on_current_def)

theorem q_history_rerun_delegates_witness:
  "q_history_rerun
     (example_env (Some \<lparr>activeConn = Some (example_conn ''dev1''), qCfg = [example_conn ''dev1'']\<rparr>) None)
     \<lparr>history_uniqLabel = js ''dev1'', history_query = js ''1+1''\<rparr> = [Sync (js ''1+1'')]
   \<and> q_history_rerun
     (example_env (Some \<lparr>activeConn = Some (example_conn ''dev1''), qCfg = [example_conn ''dev1'']\<rparr>) None)
     \<lparr>history_uniqLabel = js ''dev2'', history_query = js ''1+1''\<rparr>
       = [Connect (js ''dev2'') (Some (js ''1+1''))]
   \<and> q_history_rerun
     (example_env (Some \<lparr>activeConn = None, qCfg = [example_conn ''dev1'']\<rparr>) None)
     \<lparr>history_uniqLabel = js ''dev1'', history_query = js ''1+1''\<rparr>
       = [Connect (js ''dev1'') (Some (js ''1+1''))]
   \<and> q_history_rerun (example_env None None)
     \<lparr>history_uniqLabel = js ''dev1'', history_query = js ''1+1''\<rparr> = []"
proof -
  let ?m = "\<lparr>activeConn = Some (example_conn ''dev1''), qCfg = [example_conn ''dev1'']\<rparr>"
  let ?n = "\<lparr>activeConn = None, qCfg = [example_conn ''dev1'']\<rparr>"
  have m: "current (example_env (Some ?m) None) = Some ?m"
    and n: "current (example_env (Some ?n) None) = Some ?n"
    and z: "current (example_env None None) = None"
    by (simp_all add: example_env_def)
  note t = q_history_rerun_delegates
  show ?thesis
    using t [of "example_env (Some ?m) None" ?m "\<lparr>history_uniqLabel = js ''dev1'', history_query = js ''1+1''\<rparr>"]
      t [of "example_env (Some ?m) None" ?m "\<lparr>history_uniqLabel = js ''dev2'', history_query = js ''1+1''\<rparr>"]
      t [of "example_env (Some ?n) None" ?n "\<lparr>history_uniqLabel = js ''dev1'', history_query = js ''1+1''\<rparr>"]
      t [of "example_env None None" _ "\<lparr>history_uniqLabel = js ''dev1'', history_query = js ''1+1''\<rparr>"]
      m n z
    by (simp add: example_conn_def js_def)
qed


section \<open>Removing a server\<close>

text \<open>
  Without a manager the answer \<open>Y\<close> does not lead to a call of \<open>removeCfg\<close>.
\<close>

theorem q_client_deleteEntry_no_manager:
  "RemoveCfg (uniqLabel (example_conn ''dev1''))
     \<notin> set (q_client_deleteEntry (example_env None None) (example_conn ''dev1'') (Some (js ''Y'')))"
  by (simp add: q_client_deleteEntry_def on_current_def example_env_def)

text \<open>
  C8, amended. When there is a connection manager, \<open>q-client.deleteEntry\<close> calls
  \<open>removeCfg\<close> if and only if the input box resolves to exactly \<open>Y\<close>, and then with
  the \<open>uniqLabel\<close> of the entry. Without a manager \<open>removeCfg\<close> is never called. For every
  other answer, a cancelled prompt included, the handler only shows the prompt, so the
  set of configurations stays as it is.
\<close>

theorem q_client_deleteEntry_confirmed:
  "(current e = Some m \<longrightarrow>
      (RemoveCfg l \<in> set (q_client_deleteEntry e qConn value') \<longleftrightarrow>
         value' = Some (js ''Y'') \<and> l = uniqLabel qConn))
   \<and> (current e = None \<longrightarrow> RemoveCfg l \<notin> set (q_client_deleteEntry e qConn value'))
   \<and> (value' \<noteq> Some (js ''Y'') \<longrightarrow>
        (\<exists>prompt. q_client_deleteEntry e qConn value' = [ShowInputBox prompt]))"
  by (auto simp: q_client_deleteEntry_def on_current_def)

theorem q_client_deleteEntry_confirmed_witness:
  "RemoveCfg (js ''dev1'') \<in> set (q_client_deleteEntry
       (example_env (Some \<lparr>activeConn = None, qCfg = [example_conn ''dev1'']\<rparr>) None)
       (example_conn ''dev1'') (Some (js ''Y'')))
   \<and> RemoveCfg (js ''dev1'') \<notin> set (q_client_deleteEntry
       (example_env (Some \<lparr>activeConn = None, qCfg = [example_conn ''dev1'']\<rparr>) None)
       (example_conn ''dev1'') (Some (js ''y'')))
   \<and> RemoveCfg (js ''dev1'') \<notin> set (q_client_deleteEntry (example_env None None)
       (example_conn ''dev1'') (Some (js ''Y'')))
   \<and> (\<exists>prompt. q_client_deleteEntry
       (example_env (Some \<lparr>activeConn = None, qCfg = [example_conn ''dev1'']\<rparr>) None)
       (example_conn ''dev1'') None = [ShowInputBox prompt])"
proof -
  let ?n = "\<lparr>activeConn = None, qCfg = [example_conn ''dev1'']\<rparr>"
  have n: "current (example_env (Some ?n) None) = Some ?n"
    and z: "current (example_env None None) = None"
    by (simp_all add: example_env_def)
  have y: "Some (js ''y'') \<noteq> Some (js ''Y'')" "None \<noteq> Some (js ''Y'')"
    by (simp_all add: js_def)
  have l: "js ''dev1'' = uniqLabel (example_conn ''dev1'')"
    by (simp add: example_conn_def)
  note t = q_client_deleteEntry_confirmed
  show ?thesis
    using t [of "example_env (Some ?n) None" ?n "js ''dev1''" "example_conn ''dev1''" "Some (js ''Y'')"]
      t [of "example_env (Some ?n) None" ?n "js ''dev1''" "example_conn ''dev1''" "Some (js ''y'')"]
      t [of "example_env None None" _ "js ''dev1''" "example_conn ''dev1''" "Some (js ''Y'')"]
      t [of "example_env (Some ?n) None" ?n "js ''dev1''" "example_conn ''dev1''" None]
      n z y l
    by blast
qed


section \<open>Notifications about the scope of the source files\<close>

text \<open>
  A change of both \<open>q-client.queryMode\<close> and \<open>q-server.sourceFiles.globsPattern\<close>
  affects \<open>q-server\<close>, and the handler sends no notification for it: the first branch,
  which asks for a reload, is taken.
\<close>

theorem onDidChangeConfiguration_both_sections:
  "affectsConfiguration \<lparr>affectsConfiguration = (\<lambda>s. s \<in> set [''q-client'', ''q-client.queryMode'',
       ''q-server'', ''q-server.sourceFiles'', ''q-server.sourceFiles.globsPattern''])\<rparr> ''q-server''
   \<and> filter is_notification (onDidChangeConfiguration (example_env None None)
        \<lparr>affectsConfiguration = (\<lambda>s. s \<in> set [''q-client'', ''q-client.queryMode'',
          ''q-server'', ''q-server.sourceFiles'', ''q-server.sourceFiles.globsPattern''])\<rparr>) = []"
  by (simp add: onDidChangeConfiguration_def)

text \<open>
  C2, amended. For every configuration change that affects \<open>q-server\<close> and does not
  take the first branch (it does not affect \<open>q-client\<close>, or it affects
  \<open>q-client.term\<close>), the handler sends exactly the notification
  \<open>$/analyze-source-code\<close> with the \<open>globsPattern\<close> and \<open>ignorePattern\<close> of
  \<open>q-server.sourceFiles\<close>, and makes no other call. For a change that affects
  \<open>q-client\<close> and not \<open>q-client.term\<close> the handler only shows the message that asks
  for a reload, and so sends no notification, whether or not the change affects
  \<open>q-server\<close>.
\<close>

theorem onDidChangeConfiguration_q_server:
  "(affectsConfiguration ev ''q-server'' \<and>
      \<not> (affectsConfiguration ev ''q-client'' \<and> \<not> affectsConfiguration ev ''q-client.term'') \<longrightarrow>
        onDidChangeConfiguration e ev =
          [SendNotification ''$/analyze-source-code''
             (SourceFiles (configuration e ''q-server.sourceFiles.globsPattern'')
                          (configuration e ''q-server.sourceFiles.ignorePattern''))])
   \<and> (affectsConfiguration ev ''q-client'' \<and> \<not> affectsConfiguration ev ''q-client.term'' \<longrightarrow>
        onDidChangeConfiguration e ev =
          [ShowInformationMessage
             (js ''Reload/Restart vscode to Making the Configuration Take Effect.'')]
        \<and> filter is_notification (onDidChangeConfiguration e ev) = [])"
  by (simp add: onDidChangeConfiguration_def analyze_source_code_def)

theorem onDidChangeConfiguration_q_server_witness:
  "onDidChangeConfiguration (example_env None None)
      \<lparr>affectsConfiguration = (\<lambda>s. s \<in> set [''q-server'', ''q-server.sourceFiles'',
          ''q-server.sourceFiles.ignorePattern''])\<rparr>
     = [SendNotification ''$/analyze-source-code'' (SourceFiles Undefined Undefined)]
   \<and> onDidChangeConfiguration (example_env None None)
        \<lparr>affectsConfiguration = (\<lambda>s. s \<in> set [''q-client'', ''q-client.queryMode'',
          ''q-server'', ''q-server.sourceFiles'', ''q-server.sourceFiles.globsPattern''])\<rparr>
     = [ShowInformationMessage
          (js ''Reload/Restart vscode to Making the Configuration Take Effect.'')]
   \<and> filter is_notification (onDidChangeConfiguration (example_env None None)
        \<lparr>affectsConfiguration = (\<lambda>s. s \<in> set [''q-client'', ''q-client.queryMode'',
          ''q-server'', ''q-server.sourceFiles'', ''q-server.sourceFiles.globsPattern''])\<rparr>) = []"
  using onDidChangeConfiguration_q_server [of "\<lparr>affectsConfiguration = (\<lambda>s. s \<in> set [''q-server'', ''q-server.sourceFiles'',
          ''q-server.sourceFiles.ignorePattern''])\<rparr>" "example_env None None"]
    onDidChangeConfiguration_q_server [of "\<lparr>affectsConfiguration = (\<lambda>s. s \<in> set [''q-client'', ''q-client.queryMode'',
          ''q-server'', ''q-server.sourceFiles'', ''q-server.sourceFiles.globsPattern''])\<rparr>" "example_env None None"]
  by (simp add: example_env_def)

text \<open>
  C3. When the language client becomes ready, the handler sends exactly one
  notification, \<open>$/analyze-source-code\<close> with the \<open>globsPattern\<close> and
  \<open>ignorePattern\<close> of \<open>q-server.sourceFiles\<close>; activation itself sends none, so this
  is the only notification of the start-up.
\<close>

theorem onReady_one_notification:
  "handle e Ready =
     [SendNotification ''$/analyze-source-code''
        (SourceFiles (configuration e ''q-server.sourceFiles.globsPattern'')
                     (configuration e ''q-server.sourceFiles.ignorePattern''))]
   \<and> filter is_notification (activate e @ handle e Ready) =
     [SendNotification ''$/analyze-source-code''
        (SourceFiles (configuration e ''q-server.sourceFiles.globsPattern'')
                     (configuration e ''q-server.sourceFiles.ignorePattern''))]"
  by (simp add: onReady_def analyze_source_code_def activate_def)


section \<open>Every notification to the analyzer\<close>

lemma on_current_no_notification:
  "\<not> is_notification c \<Longrightarrow> filter is_notification (on_current e c) = []"
  by (simp add: on_current_def split: option.splits)

lemma commands_send_no_notification:
  "filter is_notification (q_client_deleteEntry e qConn value') = []"
  "filter is_notification (q_client_reactions option') = []"
  "filter is_notification (q_client_connectEntry e option') = []"
  "filter is_notification (q_client_connect e uniqLabel') = []"
  "filter is_notification (q_client_tagEntry e qConn answer) = []"
  "filter is_notification (q_client_switchMode mode) = []"
  "filter is_notification (q_explorer_preview e item) = []"
  "filter is_notification (q_history_rerun e history) = []"
  "filter is_notification (q_client_queryCurrentLine e) = []"
  "filter is_notification (q_client_querySelection e) = []"
  "filter is_notification (q_term_sendCurrentLine e) = []"
  "filter is_notification (q_term_sendSelection e) = []"
  "filter is_notification (q_client_terminal_run e) = []"
  by (simp_all add: q_client_deleteEntry_def q_client_reactions_def q_client_connectEntry_def
      q_client_connect_def q_client_tagEntry_def q_client_switchMode_def q_explorer_preview_def
      q_history_rerun_def q_client_queryCurrentLine_def q_client_querySelection_def
      q_term_sendCurrentLine_def q_term_sendSelection_def q_client_terminal_run_def
      on_current_no_notification Let_def split: option.splits list.splits)

lemma simple_commands_send_no_notification:
  "filter is_notification (q_client_refreshEntry :: 'a effect list) = []"
  "filter is_notification (q_client_addEntry :: 'a effect list) = []"
  "filter is_notification (q_client_editEntry qConn :: 'a effect list) = []"
  "filter is_notification (q_client_toggleLimitQuery e) = []"
  "filter is_notification (q_client_abortQuery e) = []"
  "filter is_notification (q_client_exportServers e) = []"
  "filter is_notification (q_client_importServers e) = []"
  "filter is_notification (q_explorer_refreshEntry :: 'a effect list) = []"
  "filter is_notification (q_explorer_click label') = []"
  "filter is_notification (deserializeWebviewPanel :: 'a effect list) = []"
  by (simp_all add: q_client_refreshEntry_def q_client_addEntry_def q_client_editEntry_def
      q_client_toggleLimitQuery_def q_client_abortQuery_def q_client_exportServers_def
      q_client_importServers_def q_explorer_refreshEntry_def q_explorer_click_def
      deserializeWebviewPanel_def on_current_no_notification)

lemma activate_sends_no_notification:
  "filter is_notification (activate e) = []"
  by (simp add: activate_def)

lemma notifications_of_handle:
  "list_all analyzer_message (filter is_notification (handle e ev))"
  by (cases ev)
    (simp_all add: commands_send_no_notification simple_commands_send_no_notification
      onDidChangeConfiguration_def analyze_source_code_def q_client_sendServerCache_def
      onReady_def fileEvents_changed_def)

text \<open>
  When a watched q file changes, the language client notifies the server about it, and
  this notification is neither \<open>$/analyze-source-code\<close> with its two patterns nor
  \<open>$/analyze-server-cache\<close> with code.
\<close>

theorem file_change_notification_is_a_third_kind:
  "Client_notifies_fileChange (js ''/work/lib.q'')
     \<in> set (handle (example_env None None) (WatchedFileChanged (js ''/work/lib.q'')))
   \<and> sent_to_server (Client_notifies_fileChange (js ''/work/lib.q'') :: unit effect)
   \<and> \<not> analyzer_message (Client_notifies_fileChange (js ''/work/lib.q'') :: unit effect)"
  by (simp add: fileEvents_changed_def)

text \<open>
  C6, amended. Every notification that \<open>client.ts\<close> sends itself, that is every call of
  \<open>client.sendNotification\<close> made by activation or by any handler of the extension, is
  one of two kinds: \<open>$/analyze-source-code\<close> with a payload of \<open>globsPattern\<close> and
  \<open>ignorePattern\<close>, or \<open>$/analyze-server-cache\<close> with the code it was given. The
  notifications the language client sends by itself are not covered.
\<close>

theorem every_notification_is_an_analyzer_message:
  "x \<in> set (activate e) \<union> set (handle e ev) \<and> is_notification x \<longrightarrow> analyzer_message x"
proof
  assume a: "x \<in> set (activate e) \<union> set (handle e ev) \<and> is_notification x"
  have "x \<notin> set (filter is_notification (activate e))"
    by (simp only: activate_sends_no_notification) simp
  with a have "x \<in> set (filter is_notification (handle e ev))"
    by simp
  with notifications_of_handle [of e ev] show "analyzer_message x"
    by (simp add: list_all_iff)
qed

theorem every_notification_is_an_analyzer_message_witness:
  "SendNotification ''$/analyze-server-cache'' (Code (Str (js ''f:{x+1}'')))
     \<in> set (activate (example_env None None))
       \<union> set (handle (example_env None None) (Cmd_sendServerCache (Str (js ''f:{x+1}''))))
   \<and> is_notification (SendNotification ''$/analyze-server-cache'' (Code (Str (js ''f:{x+1}''))) :: unit effect)
   \<and> analyzer_message (SendNotification ''$/analyze-server-cache'' (Code (Str (js ''f:{x+1}''))) :: unit effect)"
proof -
  have m: "SendNotification ''$/analyze-server-cache'' (Code (Str (js ''f:{x+1}'')))
     \<in> set (activate (example_env None None))
       \<union> set (handle (example_env None None) (Cmd_sendServerCache (Str (js ''f:{x+1}''))))"
    by (simp add: q_client_sendServerCache_def)
  have n: "is_notification (SendNotification ''$/analyze-server-cache'' (Code (Str (js ''f:{x+1}''))) :: unit effect)"
    by simp
  from every_notification_is_an_analyzer_message
    [of "SendNotification ''$/analyze-server-cache'' (Code (Str (js ''f:{x+1}'')))"
      "example_env None None" "Cmd_sendServerCache (Str (js ''f:{x+1}''))"] m n
  show ?thesis by blast
qed


section \<open>Switching the query mode\<close>

text \<open>
  C7. In \<open>q-client.switchMode\<close> the status bar is told to update the query mode only
  after \<open>QConnManager.setQueryMode(mode)\<close> has been called with the mode the user
  picked, and only when the user picked one: then the calls are the quick pick, the
  information message, \<open>setQueryMode\<close> and \<open>updateQueryModeStatus\<close>, in this order;
  when the quick pick is dismissed neither of the last two is made.
\<close>
theorem q_client_switchMode_status_after_transition:
  "(i < length (q_client_switchMode mode) \<and> q_client_switchMode mode ! i = UpdateQueryModeStatus \<longrightarrow>
      (\<exists>m j. mode = Some m \<and> m \<noteq> [] \<and> j < i \<and> q_client_switchMode mode ! j = SetQueryMode (Str m)))
   \<and> (truthy mode \<longrightarrow>
        (\<exists>m prompt message. mode = Some m \<and>
           q_client_switchMode mode = [prompt, message, SetQueryMode (Str m), UpdateQueryModeStatus]))
   \<and> (\<not> truthy mode \<longrightarrow>
        UpdateQueryModeStatus \<notin> set (q_client_switchMode mode) \<and>
        filter (\<lambda>x. case x of SetQueryMode v \<Rightarrow> True | _ \<Rightarrow> False) (q_client_switchMode mode) = [])"
proof (cases mode)
  case None
  then show ?thesis by (auto simp: q_client_switchMode_def nth_Cons')
next
  case (Some m)
  show ?thesis
  proof (cases "m = []")
    case True
    with Some show ?thesis by (auto simp: q_client_switchMode_def nth_Cons')
  next
    case False
    have tr: "q_client_switchMode mode =
        [ShowQuickPick queryModes (js ''Please choose a query mode from the list below''),
         ShowInformationMessage (js ''Switch to Query '' @ m @ js '' Mode''),
         SetQueryMode (Str m), UpdateQueryModeStatus]"
      using Some False by (simp add: q_client_switchMode_def)
    have order: "\<exists>m j. mode = Some m \<and> m \<noteq> [] \<and> j < i \<and>
          q_client_switchMode mode ! j = SetQueryMode (Str m)"
      if "i < length (q_client_switchMode mode)"
        and "q_client_switchMode mode ! i = UpdateQueryModeStatus"
    proof -
      have "i = 3"
        using that unfolding tr by (auto simp: nth_Cons' split: if_splits)
      moreover have "q_client_switchMode mode ! 2 = SetQueryMode (Str m)"
        unfolding tr by simp
      ultimately have "(2::nat) < i \<and> q_client_switchMode mode ! 2 = SetQueryMode (Str m)"
        by simp
      with Some False show ?thesis by blast
    qed
    have picked: "\<exists>m prompt message. mode = Some m \<and>
           q_client_switchMode mode = [prompt, message, SetQueryMode (Str m), UpdateQueryModeStatus]"
      using Some tr by blast
    have "truthy mode"
      using Some False by simp
    with order picked show ?thesis by blast
  qed
qed

theorem q_client_switchMode_status_after_transition_witness:
  "(3::nat) < length (q_client_switchMode (Some (js ''Grid'')) :: unit effect list)
   \<and> (q_client_switchMode (Some (js ''Grid'')) :: unit effect list) ! 3 = UpdateQueryModeStatus
   \<and> (\<exists>m j. Some (js ''Grid'') = Some m \<and> m \<noteq> [] \<and> j < (3::nat) \<and>
         (q_client_switchMode (Some (js ''Grid'')) :: unit effect list) ! j = SetQueryMode (Str m))
   \<and> truthy (Some (js ''Grid''))
   \<and> \<not> truthy None
   \<and> UpdateQueryModeStatus \<notin> set (q_client_switchMode None :: unit effect list)"
proof -
  have h: "(3::nat) < length (q_client_switchMode (Some (js ''Grid'')) :: unit effect list)"
    "(q_client_switchMode (Some (js ''Grid'')) :: unit effect list) ! 3 = UpdateQueryModeStatus"
    "truthy (Some (js ''Grid''))" "\<not> truthy None"
    by (simp_all add: q_client_switchMode_def js_def)
  from q_client_switchMode_status_after_transition [of 3 "Some (js ''Grid'')"]
    q_client_switchMode_status_after_transition [of _ None] h
  show ?thesis by blast
qed


section \<open>Sending the selection to the terminal\<close>

lemma replace_linebreaks_filter:
  "replace_linebreaks s = filter (\<lambda>c. c \<noteq> CR \<and> c \<noteq> LF) s"
  by (induction s rule: replace_linebreaks.induct) (auto simp: CR_def LF_def)

text \<open>
  C10. \<open>q-term.sendSelection\<close> hands to \<open>sendToCurrentTerm\<close> the selected text without
  its carriage returns and line feeds, so what is sent contains neither; it sends
  nothing when the selection is empty or when there is no active editor.
\<close>

theorem q_term_sendSelection_strips_linebreaks:
  "(activeTextEditor e = Some ed \<and> selection_text ed \<noteq> [] \<longrightarrow>
      q_term_sendSelection e =
        [SendToCurrentTerm (filter (\<lambda>c. c \<noteq> CR \<and> c \<noteq> LF) (selection_text ed))])
   \<and> (SendToCurrentTerm t \<in> set (q_term_sendSelection e) \<longrightarrow> CR \<notin> set t \<and> LF \<notin> set t)
   \<and> (activeTextEditor e = None \<or> map_option selection_text (activeTextEditor e) = Some [] \<longrightarrow>
        q_term_sendSelection e = [])"
  by (auto simp: q_term_sendSelection_def replace_linebreaks_filter split: option.splits)

theorem q_term_sendSelection_strips_linebreaks_witness:
  "q_term_sendSelection (example_env None
       (Some \<lparr>selection_text = js ''a:1;'' @ [CR, LF] @ js ''b:2'' @ [LF, CR, CR], active_line_text = js ''a:1;'', fileName = js ''x.q''\<rparr>))
     = [SendToCurrentTerm (js ''a:1;b:2'')]
   \<and> q_term_sendSelection (example_env None
       (Some \<lparr>selection_text = [], active_line_text = js ''a:1;'', fileName = js ''x.q''\<rparr>)) = []
   \<and> q_term_sendSelection (example_env None None) = []"
proof -
  let ?ed = "\<lparr>selection_text = js ''a:1;'' @ [CR, LF] @ js ''b:2'' @ [LF, CR, CR], active_line_text = js ''a:1;'', fileName = js ''x.q''\<rparr>"
  let ?em = "\<lparr>selection_text = [], active_line_text = js ''a:1;'', fileName = js ''x.q''\<rparr>"
  note t = q_term_sendSelection_strips_linebreaks
  show ?thesis
    using t [of "example_env None (Some ?ed)" ?ed]
      t [of "example_env None (Some ?em)"]
      t [of "example_env None None"]
    by (simp add: example_env_def js_def CR_def LF_def)
qed


section \<open>Setting the query mode\<close>

text \<open>
  C4. \<open>setQueryMode\<close> accepts exactly \<open>Console\<close>, \<open>Grid\<close> and \<open>Virtualization\<close>; on
  every other string (and on a value that is no string) it throws nothing and leaves
  the manager as it is. So the call at start-up, whatever the stored value of
  \<open>q-client.queryMode\<close> is, does not throw.
\<close>

theorem setQueryMode_silent_on_unknown_mode:
  "(s \<notin> set queryModes \<longrightarrow> setQueryMode (Str s :: 'a jsval) m = Inr m)
   \<and> setQueryMode (Undefined :: 'a jsval) m = Inr m
   \<and> setQueryMode (Other (v :: 'a)) m = Inr m
   \<and> setQueryMode (Str (js ''Console'') :: 'a jsval) m = Inr (m\<lparr>queryMode := Console\<rparr>)
   \<and> setQueryMode (Str (js ''Grid'') :: 'a jsval) m = Inr (m\<lparr>queryMode := Grid\<rparr>)
   \<and> setQueryMode (Str (js ''Virtualization'') :: 'a jsval) m = Inr (m\<lparr>queryMode := Virtualization\<rparr>)
   \<and> (\<exists>m'. startup_setQueryMode (e :: 'a env) m = Inr m')
   \<and> SetQueryMode (configuration e ''q-client.queryMode'') \<in> set (activate e)"
proof -
  have "\<exists>m'. startup_setQueryMode e m = Inr m'"
    by (simp add: startup_setQueryMode_def setQueryMode_def split: option.splits)
  moreover have "SetQueryMode (configuration e ''q-client.queryMode'') \<in> set (activate e)"
    by (simp add: activate_def)
  moreover have "s \<notin> set queryModes \<longrightarrow> setQueryMode (Str s :: 'a jsval) m = Inr m"
    by (simp add: setQueryMode_def queryModes_def)
  moreover have "setQueryMode (Str (js ''Console'') :: 'a jsval) m = Inr (m\<lparr>queryMode := Console\<rparr>)"
    "setQueryMode (Str (js ''Grid'') :: 'a jsval) m = Inr (m\<lparr>queryMode := Grid\<rparr>)"
    "setQueryMode (Str (js ''Virtualization'') :: 'a jsval) m = Inr (m\<lparr>queryMode := Virtualization\<rparr>)"
    by (simp_all add: setQueryMode_def js_def)
  ultimately show ?thesis
    by (simp add: setQueryMode_def)
qed

theorem setQueryMode_silent_on_unknown_mode_witness:
  "js ''console'' \<notin> set queryModes
   \<and> setQueryMode (Str (js ''console'') :: unit jsval) example_manager = Inr example_manager
   \<and> setQueryMode (Str (js ''Grid'') :: unit jsval) example_manager
       = Inr (example_manager\<lparr>queryMode := Grid\<rparr>)"
proof -
  have h: "js ''console'' \<notin> set queryModes"
    by (simp add: queryModes_def js_def)
  from setQueryMode_silent_on_unknown_mode
    [of "js ''console''" example_manager "()" "example_env None None"] h
  show ?thesis by blast
qed


section \<open>Toggling the limit on query results\<close>

text \<open>
  C5. Two calls of \<open>toggleLimitQuery\<close> in a row give the manager back as it was; one
  call negates \<open>limitQueryEnabled\<close>, makes no call into another module and changes no
  other field.
\<close>

theorem toggleLimitQuery_involution:
  "fst (toggleLimitQuery (fst (toggleLimitQuery m :: ConnectionManager \<times> 'a effect list))
          :: ConnectionManager \<times> 'a effect list) = m
   \<and> limitQueryEnabled (fst (toggleLimitQuery m :: ConnectionManager \<times> 'a effect list))
       = (\<not> limitQueryEnabled m)
   \<and> snd (toggleLimitQuery m :: ConnectionManager \<times> 'a effect list) = []
   \<and> fst (toggleLimitQuery m :: ConnectionManager \<times> 'a effect list)
       = m\<lparr>limitQueryEnabled := \<not> limitQueryEnabled m\<rparr>"
  by (simp add: toggleLimitQuery_def)

end
